theory Spec2Isabelle
  imports Main
begin

section \<open>Values of the script\<close>

text \<open>
  The script \<^verbatim>\<open>script.js\<close> reads the cells of a spreadsheet, maps each new row to a
  product and posts it to a shop. A cell holds a string, a number or a boolean; reading a
  row beyond its end gives \<^verbatim>\<open>undefined\<close>, and \<^verbatim>\<open>null\<close> is the other value without
  properties. Strings are sequences of ASCII characters.

  A number is \<^verbatim>\<open>NaN\<close>, an infinity, or a finite decimal \<open>Fin m e\<close> standing for
  \<open>m * 10 ^ e\<close>: the decimal that the language prints for it. Zero is \<open>Fin 0 e\<close>; the
  sign of a zero is not kept (both zeros are falsy and equal to \<^verbatim>\<open>0\<close>). Conversions
  from text to a number keep the range of a double (overflow to an infinity, underflow
  to zero) and leave the rounding of the 53-bit significand out.
\<close>

datatype number = NaN | PosInf | NegInf | Fin int int

datatype cell = CUndefined | CNull | CBool bool | CNum number | CStr string

datatype exn = TypeError string | SyntaxError string | Exception string

subsection \<open>Strings\<close>

definition is_whitespace :: "char \<Rightarrow> bool" where
  "is_whitespace c = (c \<in> set [CHR '' '', CHR 0x09, CHR 0x0A, CHR 0x0B, CHR 0x0C, CHR 0x0D])"

definition trimStart :: "string \<Rightarrow> string" where
  "trimStart s = dropWhile is_whitespace s"

definition trim :: "string \<Rightarrow> string" where
  "trim s = rev (dropWhile is_whitespace (rev (dropWhile is_whitespace s)))"

definition lower_char :: "char \<Rightarrow> char" where
  "lower_char c =
     (case map_of (zip ''ABCDEFGHIJKLMNOPQRSTUVWXYZ'' ''abcdefghijklmnopqrstuvwxyz'') c of
        Some l \<Rightarrow> l
      | None \<Rightarrow> c)"

definition toLowerCase :: "string \<Rightarrow> string" where
  "toLowerCase s = map lower_char s"

definition is_digit :: "char \<Rightarrow> bool" where
  "is_digit c = (c \<in> set ''0123456789'')"

definition digit_value :: "char \<Rightarrow> nat" where
  "digit_value c =
     (case map_of (zip ''0123456789abcdefABCDEF''
                       [0, 1, 2, 3, 4, 5, 6, 7, 8, 9, 10, 11, 12, 13, 14, 15, 10, 11, 12, 13, 14, 15]) c of
        Some d \<Rightarrow> d
      | None \<Rightarrow> 0)"

definition is_hex_digit :: "char \<Rightarrow> bool" where
  "is_hex_digit c = (c \<in> set ''0123456789abcdefABCDEF'')"

text \<open>The value of a string of digits in radix \<open>r\<close>, most significant digit first.\<close>

definition digits_value :: "int \<Rightarrow> string \<Rightarrow> int" where
  "digits_value r ds = foldl (\<lambda>acc c. acc * r + int (digit_value c)) 0 ds"

text \<open>The decimal digits of a non-negative integer.\<close>

function int_digits :: "int \<Rightarrow> string" where
  "int_digits n =
     (if n < 10 then [''0123456789'' ! nat n]
      else int_digits (n div 10) @ [''0123456789'' ! nat (n mod 10)])"
  by pat_completeness auto
termination
  by (relation "measure nat") auto

declare int_digits.simps [simp del]

subsection \<open>Numbers\<close>

definition is_zero :: "number \<Rightarrow> bool" where
  "is_zero n = (case n of Fin m e \<Rightarrow> m = 0 | _ \<Rightarrow> False)"


text \<open>
  The shortest form of a positive decimal: no trailing zero in the significand.
\<close>

function strip_zeros :: "int \<Rightarrow> int \<Rightarrow> int \<times> int" where
  "strip_zeros m e =
     (if 0 < m \<and> m mod 10 = 0 then strip_zeros (m div 10) (e + 1) else (m, e))"
  by pat_completeness auto
termination
  by (relation "measure (\<lambda>(m, e). nat m)") auto

declare strip_zeros.simps [simp del]

text \<open>
  The number value of the decimal \<open>m * 10 ^ e\<close>: a magnitude of at least
  \<open>2 ^ 1024 - 2 ^ 970\<close> rounds to an infinity, one of at most \<open>2 ^ -1075\<close> to zero.
\<close>

definition number_of_decimal :: "int \<Rightarrow> int \<Rightarrow> number" where
  "number_of_decimal m e =
     (let a = \<bar>m\<bar>;
          big = (if 0 \<le> e then 2 ^ 1024 - 2 ^ 970 \<le> a * 10 ^ nat e
                 else (2 ^ 1024 - 2 ^ 970) * 10 ^ nat (- e) \<le> a);
          tiny = (if 0 \<le> e then a = 0 else a * 2 ^ 1075 \<le> 10 ^ nat (- e))
      in if big then (if m < 0 then NegInf else PosInf)
         else if tiny then Fin 0 0
         else (case strip_zeros a e of (s, e') \<Rightarrow> Fin (if m < 0 then - s else s) e'))"

text \<open>
  \<^verbatim>\<open>Number.prototype.toString\<close> in radix 10. With \<open>k\<close> digits \<open>s\<close> and the decimal
  point after the \<open>n\<close>-th digit: plain digits when \<open>k \<le> n \<le> 21\<close>, a point inside when
  \<open>0 < n \<le> 21\<close>, leading zeros when \<open>-6 < n \<le> 0\<close>, and the exponent form otherwise.
\<close>

definition positive_to_string :: "int \<Rightarrow> int \<Rightarrow> string" where
  "positive_to_string m e =
     (case strip_zeros m e of (s, e') \<Rightarrow>
        (let ds = int_digits s; k = int (length ds); n = k + e' in
         if k \<le> n \<and> n \<le> 21 then ds @ replicate (nat (n - k)) CHR ''0''
         else if 0 < n \<and> n \<le> 21 then take (nat n) ds @ ''.'' @ drop (nat n) ds
         else if - 6 < n \<and> n \<le> 0 then ''0.'' @ replicate (nat (- n)) CHR ''0'' @ ds
         else (let x = n - 1;
                   ex = (if 0 \<le> x then ''+'' else ''-'') @ int_digits \<bar>x\<bar>
               in if k = 1 then ds @ ''e'' @ ex
                  else take 1 ds @ ''.'' @ drop 1 ds @ ''e'' @ ex)))"

definition number_to_string :: "number \<Rightarrow> string" where
  "number_to_string n =
     (case n of
        NaN \<Rightarrow> ''NaN''
      | PosInf \<Rightarrow> ''Infinity''
      | NegInf \<Rightarrow> ''-Infinity''
      | Fin m e \<Rightarrow>
          (if m = 0 then ''0''
           else if m < 0 then ''-'' @ positive_to_string (- m) e
           else positive_to_string m e))"

subsection \<open>Conversions\<close>

text \<open>
  \<open>ToString\<close> is the conversion the language applies where it needs a string
  (\<^verbatim>\<open>parseInt\<close>, \<^verbatim>\<open>parseFloat\<close>); \<open>toString\<close> is the method call
  \<^verbatim>\<open>value.toString()\<close>, which raises a \<^verbatim>\<open>TypeError\<close> on \<^verbatim>\<open>undefined\<close> and \<^verbatim>\<open>null\<close>.
\<close>

definition ToString :: "cell \<Rightarrow> string" where
  "ToString v =
     (case v of
        CUndefined \<Rightarrow> ''undefined''
      | CNull \<Rightarrow> ''null''
      | CBool b \<Rightarrow> (if b then ''true'' else ''false'')
      | CNum n \<Rightarrow> number_to_string n
      | CStr s \<Rightarrow> s)"

definition toString :: "cell \<Rightarrow> exn + string" where
  "toString v =
     (case v of
        CUndefined \<Rightarrow> Inl (TypeError ''Cannot read properties of undefined (reading 'toString')'')
      | CNull \<Rightarrow> Inl (TypeError ''Cannot read properties of null (reading 'toString')'')
      | _ \<Rightarrow> Inr (ToString v))"

text \<open>A value is falsy when \<^verbatim>\<open>!value\<close> is true.\<close>

definition falsy :: "cell \<Rightarrow> bool" where
  "falsy v =
     (case v of
        CUndefined \<Rightarrow> True
      | CNull \<Rightarrow> True
      | CBool b \<Rightarrow> \<not> b
      | CNum n \<Rightarrow> n = NaN \<or> is_zero n
      | CStr s \<Rightarrow> s = [])"

text \<open>\<^verbatim>\<open>value === 0\<close>: a number that is zero.\<close>

definition is_number_zero :: "cell \<Rightarrow> bool" where
  "is_number_zero v = (case v of CNum n \<Rightarrow> is_zero n | _ \<Rightarrow> False)"

text \<open>
  \<^verbatim>\<open>parseInt(string)\<close> without a radix: leading white space and one sign are dropped,
  a prefix \<^verbatim>\<open>0x\<close> or \<^verbatim>\<open>0X\<close> selects radix 16, and the longest run of digits is
  read; no digit gives \<^verbatim>\<open>NaN\<close>.
\<close>

definition parseInt_string :: "string \<Rightarrow> number" where
  "parseInt_string input =
     (let s = trimStart input;
          negative = (s \<noteq> [] \<and> hd s = CHR ''-'');
          s1 = (if s \<noteq> [] \<and> (hd s = CHR ''+'' \<or> hd s = CHR ''-'') then tl s else s);
          hex = (take 2 s1 = ''0x'' \<or> take 2 s1 = ''0X'');
          s2 = (if hex then drop 2 s1 else s1);
          z = (if hex then takeWhile is_hex_digit s2 else takeWhile is_digit s2);
          mathInt = digits_value (if hex then 16 else 10) z
      in if z = [] then NaN
         else number_of_decimal (if negative then - mathInt else mathInt) 0)"

definition parseInt :: "cell \<Rightarrow> number" where
  "parseInt v = parseInt_string (ToString v)"

text \<open>
  \<^verbatim>\<open>parseFloat(string)\<close> reads the longest prefix that is a decimal literal: an optional
  sign, then \<^verbatim>\<open>Infinity\<close> or digits with an optional fraction and an optional exponent
  (an exponent counts only with a digit in it); no such prefix gives \<^verbatim>\<open>NaN\<close>.
\<close>

definition exponent_part :: "string \<Rightarrow> int" where
  "exponent_part r =
     (if r \<noteq> [] \<and> (hd r = CHR ''e'' \<or> hd r = CHR ''E'') then
        (let t = tl r;
             negative = (t \<noteq> [] \<and> hd t = CHR ''-'');
             t1 = (if t \<noteq> [] \<and> (hd t = CHR ''+'' \<or> hd t = CHR ''-'') then tl t else t);
             ds = takeWhile is_digit t1
         in if ds = [] then 0
            else if negative then - digits_value 10 ds else digits_value 10 ds)
      else 0)"

definition parseFloat_string :: "string \<Rightarrow> number" where
  "parseFloat_string input =
     (let s = trimStart input;
          negative = (s \<noteq> [] \<and> hd s = CHR ''-'');
          s1 = (if s \<noteq> [] \<and> (hd s = CHR ''+'' \<or> hd s = CHR ''-'') then tl s else s)
      in if take 8 s1 = ''Infinity'' then (if negative then NegInf else PosInf)
         else
           (let ip = takeWhile is_digit s1;
                r1 = dropWhile is_digit s1;
                point = (r1 \<noteq> [] \<and> hd r1 = CHR ''.'');
                fp = (if point then takeWhile is_digit (tl r1) else []);
                r2 = (if point then dropWhile is_digit (tl r1) else r1);
                m = digits_value 10 (ip @ fp)
            in if ip = [] \<and> fp = [] then NaN
               else number_of_decimal (if negative then - m else m)
                      (exponent_part r2 - int (length fp))))"

definition parseFloat :: "cell \<Rightarrow> number" where
  "parseFloat v = parseFloat_string (ToString v)"

text \<open>\<^verbatim>\<open>n || 0\<close> on a number: \<^verbatim>\<open>NaN\<close> and zero are falsy and give \<^verbatim>\<open>0\<close>.\<close>

definition or_zero :: "number \<Rightarrow> number" where
  "or_zero n = (if n = NaN \<or> is_zero n then Fin 0 0 else n)"





section \<open>The field mapper\<close>

text \<open>
  A product as \<^verbatim>\<open>mapRowToProduct\<close> builds it. A property that was never assigned is
  \<open>None\<close>. The array \<^verbatim>\<open>product.variants\<close> holds the one variant the mapper creates
  and is never resized, so the record keeps that variant as \<open>variant0\<close>. An option group
  \<^verbatim>\<open>{name, values}\<close> is a pair, an image \<^verbatim>\<open>{src}\<close> its source text.
\<close>

record variant =
  sku :: "string option"
  barcode :: "string option"
  price :: "string option"
  compare_at_price :: "string option"
  cost :: "string option"
  inventory_quantity :: "number option"
  weight :: "number option"
  weight_unit :: "cell option"
  option1 :: "string option"
  option2 :: "string option"

record product =
  title :: "cell option"
  body_html :: "cell option"
  vendor :: "cell option"
  product_type :: "cell option"
  tags :: "cell option"
  published :: "bool option"
  variant0 :: variant
  options :: "(string \<times> string list) list option"
  images :: "string list option"

definition new_variant :: variant where
  "new_variant =
     \<lparr>sku = None, barcode = None, price = None, compare_at_price = None, cost = None,
      inventory_quantity = None, weight = None, weight_unit = None,
      option1 = None, option2 = None\<rparr>"

definition new_product :: product where
  "new_product =
     \<lparr>title = None, body_html = None, vendor = None, product_type = None, tags = None,
      published = None, variant0 = new_variant, options = None, images = None\<rparr>"

text \<open>The groups of \<^verbatim>\<open>case\<close> labels of the \<^verbatim>\<open>switch\<close>, one per assignment.\<close>

datatype field =
  Title | BodyHtml | Vendor | ProductType | Tags | Published
  | Sku | Barcode | Price | CompareAtPrice | Cost | InventoryQuantity | Weight | WeightUnit
  | Option1 | Option2 | Image

definition switch_case :: "string \<Rightarrow> field option" where
  "switch_case headerLower =
     (if headerLower \<in> set [''title'', ''product name'', ''name''] then Some Title
      else if headerLower \<in> set [''description'', ''body'', ''body_html''] then Some BodyHtml
      else if headerLower \<in> set [''vendor'', ''brand'', ''manufacturer''] then Some Vendor
      else if headerLower \<in> set [''product type'', ''type'', ''category''] then Some ProductType
      else if headerLower \<in> set [''tags'', ''keywords''] then Some Tags
      else if headerLower \<in> set [''published'', ''status''] then Some Published
      else if headerLower \<in> set [''sku'', ''product code''] then Some Sku
      else if headerLower \<in> set [''barcode'', ''upc'', ''ean'', ''isbn'', ''gtin''] then Some Barcode
      else if headerLower \<in> set [''price'', ''retail price''] then Some Price
      else if headerLower \<in> set [''compare at price'', ''compare price'', ''msrp'']
        then Some CompareAtPrice
      else if headerLower \<in> set [''cost'', ''cost price''] then Some Cost
      else if headerLower \<in> set [''inventory'', ''quantity'', ''stock'']
        then Some InventoryQuantity
      else if headerLower = ''weight'' then Some Weight
      else if headerLower = ''weight unit'' then Some WeightUnit
      else if headerLower \<in> set [''option1'', ''size''] then Some Option1
      else if headerLower \<in> set [''option2'', ''color''] then Some Option2
      else if headerLower \<in> set [''image'', ''image url'', ''product image''] then Some Image
      else None)"

text \<open>The body of each group: what it assigns from \<^verbatim>\<open>value\<close>.\<close>

fun assign :: "field \<Rightarrow> product \<Rightarrow> cell \<Rightarrow> exn + product" where
  "assign Title p v = Inr (p\<lparr>title := Some v\<rparr>)"
| "assign BodyHtml p v = Inr (p\<lparr>body_html := Some v\<rparr>)"
| "assign Vendor p v = Inr (p\<lparr>vendor := Some v\<rparr>)"
| "assign ProductType p v = Inr (p\<lparr>product_type := Some v\<rparr>)"
| "assign Tags p v = Inr (p\<lparr>tags := Some v\<rparr>)"
| "assign Published p v =
     Inr (p\<lparr>published :=
            Some (v = CBool True \<or> v = CStr ''true'' \<or> v = CStr ''yes'' \<or> v = CStr ''published'')\<rparr>)"
| "assign Sku p v =
     (case toString v of
        Inl e \<Rightarrow> Inl e
      | Inr s \<Rightarrow> Inr (p\<lparr>variant0 := (variant0 p)\<lparr>sku := Some s\<rparr>\<rparr>))"
| "assign Barcode p v =
     (case toString v of
        Inl e \<Rightarrow> Inl e
      | Inr s \<Rightarrow> Inr (p\<lparr>variant0 := (variant0 p)\<lparr>barcode := Some s\<rparr>\<rparr>))"
| "assign Price p v =
     (case toString v of
        Inl e \<Rightarrow> Inl e
      | Inr s \<Rightarrow> Inr (p\<lparr>variant0 := (variant0 p)\<lparr>price := Some s\<rparr>\<rparr>))"
| "assign CompareAtPrice p v =
     (case toString v of
        Inl e \<Rightarrow> Inl e
      | Inr s \<Rightarrow> Inr (p\<lparr>variant0 := (variant0 p)\<lparr>compare_at_price := Some s\<rparr>\<rparr>))"
| "assign Cost p v =
     (case toString v of
        Inl e \<Rightarrow> Inl e
      | Inr s \<Rightarrow> Inr (p\<lparr>variant0 := (variant0 p)\<lparr>cost := Some s\<rparr>\<rparr>))"
| "assign InventoryQuantity p v =
     Inr (p\<lparr>variant0 := (variant0 p)\<lparr>inventory_quantity := Some (or_zero (parseInt v))\<rparr>\<rparr>)"
| "assign Weight p v =
     Inr (p\<lparr>variant0 := (variant0 p)\<lparr>weight := Some (or_zero (parseFloat v))\<rparr>\<rparr>)"
| "assign WeightUnit p v = Inr (p\<lparr>variant0 := (variant0 p)\<lparr>weight_unit := Some v\<rparr>\<rparr>)"
| "assign Option1 p v =
     (case toString v of
        Inl e \<Rightarrow> Inl e
      | Inr s \<Rightarrow>
          (let p1 = p\<lparr>variant0 := (variant0 p)\<lparr>option1 := Some s\<rparr>\<rparr>
           in Inr (if options p1 = None then p1\<lparr>options := Some [(''Size'', [s])]\<rparr> else p1)))"
| "assign Option2 p v =
     (case toString v of
        Inl e \<Rightarrow> Inl e
      | Inr s \<Rightarrow>
          (let p1 = p\<lparr>variant0 := (variant0 p)\<lparr>option2 := Some s\<rparr>\<rparr>;
               p2 = (if options p1 = None then p1\<lparr>options := Some [(''Size'', [''Default''])]\<rparr>
                     else p1)
           in Inr (case options p2 of
                     None \<Rightarrow> p2
                   | Some groups \<Rightarrow>
                       if length groups < 2 then p2\<lparr>options := Some (groups @ [(''Color'', [s])])\<rparr>
                       else p2)))"
| "assign Image p v =
     (if falsy v then Inr p
      else (case toString v of
              Inl e \<Rightarrow> Inl e
            | Inr s \<Rightarrow> Inr (if trim s \<noteq> [] then p\<lparr>images := Some [trim s]\<rparr> else p)))"

text \<open>
  The callback of \<^verbatim>\<open>headers.forEach\<close> for one column. A value that is falsy and not
  the number zero returns at once, before the header is looked at.
\<close>

definition skipped :: "cell \<Rightarrow> bool" where
  "skipped v = (falsy v \<and> \<not> is_number_zero v)"

definition map_column :: "product \<Rightarrow> cell \<Rightarrow> cell \<Rightarrow> exn + product" where
  "map_column p header v =
     (if skipped v then Inr p
      else (case toString header of
              Inl e \<Rightarrow> Inl e
            | Inr text \<Rightarrow>
                (case switch_case (trim (toLowerCase text)) of
                   None \<Rightarrow> Inr p
                 | Some f \<Rightarrow> assign f p v)))"

text \<open>\<^verbatim>\<open>rowData[index]\<close>: \<^verbatim>\<open>undefined\<close> beyond the end of the row.\<close>

definition element :: "cell list \<Rightarrow> nat \<Rightarrow> cell" where
  "element rowData index = (if index < length rowData then rowData ! index else CUndefined)"

fun forEach_column :: "cell list \<Rightarrow> cell list \<Rightarrow> nat \<Rightarrow> product \<Rightarrow> exn + product" where
  "forEach_column [] rowData index p = Inr p"
| "forEach_column (header # rest) rowData index p =
     (case map_column p header (element rowData index) of
        Inl e \<Rightarrow> Inl e
      | Inr p' \<Rightarrow> forEach_column rest rowData (Suc index) p')"

definition mapRowToProduct :: "cell list \<Rightarrow> cell list \<Rightarrow> exn + product" where
  "mapRowToProduct headers rowData = forEach_column headers rowData 0 new_product"

text \<open>\<^verbatim>\<open>isValidProduct\<close>: \<^verbatim>\<open>!!product.title\<close>.\<close>

definition isValidProduct :: "product \<Rightarrow> bool" where
  "isValidProduct p = (case title p of None \<Rightarrow> False | Some t \<Rightarrow> \<not> falsy t)"





section \<open>The catalog client\<close>

text \<open>
  A parsed response body is a JSON value; an object is the list of its properties, each
  name once. The
  remote answers a request with a response, or the request raises. A response is its
  status code and what \<^verbatim>\<open>JSON.parse\<close> makes of its text: the value, or the
  \<^verbatim>\<open>SyntaxError\<close> raised.
\<close>

datatype json =
  JNull | JBool bool | JNumber number | JString string
  | JArray "json list" | JObject "(string \<times> json) list"

datatype fetch_result = Raised exn | Response int "exn + json"

text \<open>
  The text of an error: \<open>ApiError code body\<close> stands for the template
  \<^verbatim>\<open>API Error (${responseCode}): ${JSON.stringify(responseBody)}\<close>, \<open>Uncaught e\<close> for
  \<^verbatim>\<open>error.toString()\<close>, and \<open>InvalidRow i\<close> for
  \<^verbatim>\<open>'Row ' + rowIndex + ': Invalid product data (missing required fields)'\<close>.
\<close>

datatype message = ApiError int json | Uncaught exn | InvalidRow nat

text \<open>
  The object \<^verbatim>\<open>createShopifyProduct\<close> returns: \<^verbatim>\<open>{success: true, id, data}\<close> or
  \<^verbatim>\<open>{success: false, error}\<close>. An \<^verbatim>\<open>id\<close> that is \<^verbatim>\<open>undefined\<close> is \<open>None\<close>.
\<close>

datatype created = Success "json option" json | Failure message

text \<open>
  Reading the property \<^verbatim>\<open>product\<close> or \<^verbatim>\<open>id\<close> of a value: a \<^verbatim>\<open>TypeError\<close> on
  \<^verbatim>\<open>null\<close>, the property of an object that has it, and \<^verbatim>\<open>undefined\<close> (\<open>None\<close>)
  otherwise; no string, number, boolean or array has a property of these names.
\<close>

definition get_property :: "json \<Rightarrow> string \<Rightarrow> exn + json option" where
  "get_property j name =
     (case j of
        JNull \<Rightarrow> Inl (TypeError ''Cannot read properties of null'')
      | JObject properties \<Rightarrow> Inr (map_of properties name)
      | _ \<Rightarrow> Inr None)"

definition truthy :: "json \<Rightarrow> bool" where
  "truthy j =
     (case j of
        JNull \<Rightarrow> False
      | JBool b \<Rightarrow> b
      | JNumber n \<Rightarrow> n \<noteq> NaN \<and> \<not> is_zero n
      | JString s \<Rightarrow> s \<noteq> []
      | JArray xs \<Rightarrow> True
      | JObject properties \<Rightarrow> True)"

text \<open>
  The \<^verbatim>\<open>try\<close> block of \<^verbatim>\<open>createShopifyProduct\<close>, from the result of the request on.
  The condition reads \<^verbatim>\<open>responseBody.product\<close> only when the status code is in range.
\<close>

definition try_create :: "fetch_result \<Rightarrow> exn + created" where
  "try_create r =
     (case r of
        Raised e \<Rightarrow> Inl e
      | Response responseCode parsed \<Rightarrow>
          (case parsed of
             Inl e \<Rightarrow> Inl e
           | Inr responseBody \<Rightarrow>
               if 200 \<le> responseCode \<and> responseCode < 300 then
                 (case get_property responseBody ''product'' of
                    Inl e \<Rightarrow> Inl e
                  | Inr None \<Rightarrow> Inr (Failure (ApiError responseCode responseBody))
                  | Inr (Some found) \<Rightarrow>
                      if truthy found then
                        (case get_property found ''id'' of
                           Inl e \<Rightarrow> Inl e
                         | Inr ident \<Rightarrow> Inr (Success ident found))
                      else Inr (Failure (ApiError responseCode responseBody)))
               else Inr (Failure (ApiError responseCode responseBody))))"

section \<open>The sync loop\<close>

text \<open>
  What the script changes: the script property \<^verbatim>\<open>lastProcessedRow\<close> (\<open>None\<close> until it
  is set; the script writes it only as the text of a row count and reads it back with
  \<^verbatim>\<open>parseInt\<close>, so it is kept here as the count: \<open>written_row\<close> and \<open>read_row\<close>
  below are the two conversions, and reading gives back the count written), the status texts
  written with \<^verbatim>\<open>updateSyncStatus\<close> as pairs of row number and status, oldest first, and
  the products posted to the shop, oldest first. The lines of the log are left out.
\<close>

datatype status = Synced string "json option" | ERROR message

record world =
  lastProcessedRow :: "nat option"
  statuses :: "(nat \<times> status) list"
  posted :: "product list"

text \<open>
  What the script calls without changing: the shop, which answers a product in view of
  the products posted before, and the clock, \<open>now i\<close> being the text of
  \<^verbatim>\<open>new Date().toLocaleString()\<close> when row \<open>i\<close> is marked.
\<close>

record services =
  fetch :: "product list \<Rightarrow> product \<Rightarrow> fetch_result"
  now :: "nat \<Rightarrow> string"

text \<open>
  \<^verbatim>\<open>createShopifyProduct\<close>: the request is made, and whatever the \<^verbatim>\<open>try\<close> block
  raises is caught and returned as a failure.
\<close>

definition createShopifyProduct :: "services \<Rightarrow> product \<Rightarrow> world \<Rightarrow> created \<times> world" where
  "createShopifyProduct svc p w =
     (let response = fetch svc (posted w) p;
          w' = w\<lparr>posted := posted w @ [p]\<rparr>
      in (case try_create response of
            Inl error \<Rightarrow> (Failure (Uncaught error), w')
          | Inr result \<Rightarrow> (result, w')))"

definition updateSyncStatus :: "world \<Rightarrow> nat \<Rightarrow> status \<Rightarrow> world" where
  "updateSyncStatus w rowNum st = w\<lparr>statuses := statuses w @ [(rowNum, st)]\<rparr>"

text \<open>
  A sheet is the rows of its data range. \<^verbatim>\<open>getLastRow\<close> is their number, and
  \<^verbatim>\<open>getDataRange().getValues()\<close> returns them; the data range of an empty sheet is the
  one blank cell \<^verbatim>\<open>A1\<close>.
\<close>

type_synonym sheet = "cell list list"

definition getLastDataRow :: "sheet \<Rightarrow> nat" where
  "getLastDataRow sh = length sh"

definition getValues :: "sheet \<Rightarrow> cell list list" where
  "getValues sh = (if sh = [] then [[CStr []]] else sh)"

text \<open>\<^verbatim>\<open>parseInt(properties.getProperty('lastProcessedRow') || '0')\<close>.\<close>

definition stored_row :: "world \<Rightarrow> nat" where
  "stored_row w = (case lastProcessedRow w of None \<Rightarrow> 0 | Some n \<Rightarrow> n)"

text \<open>
  The property as the text it is: \<^verbatim>\<open>currentLastRow.toString()\<close> is written, and
  \<^verbatim>\<open>parseInt(property || '0')\<close> is read, an unset or empty property counting as
  \<^verbatim>\<open>'0'\<close>.
\<close>

definition written_row :: "nat \<Rightarrow> string" where
  "written_row n = number_to_string (number_of_decimal (int n) 0)"

definition read_row :: "string option \<Rightarrow> number" where
  "read_row property =
     parseInt_string (case property of None \<Rightarrow> ''0'' | Some t \<Rightarrow> if t = [] then ''0'' else t)"

text \<open>\<^verbatim>\<open>rowData.join('')\<close>: \<^verbatim>\<open>undefined\<close> and \<^verbatim>\<open>null\<close> join as the empty string.\<close>

definition join_cells :: "cell list \<Rightarrow> string" where
  "join_cells rowData =
     concat (map (\<lambda>v. case v of CUndefined \<Rightarrow> [] | CNull \<Rightarrow> [] | _ \<Rightarrow> ToString v) rowData)"

definition is_blank :: "cell list \<Rightarrow> bool" where
  "is_blank rowData = (trim (join_cells rowData) = [])"

text \<open>
  The body of the \<^verbatim>\<open>for\<close> loop for one row: a blank row is passed over; an exception
  of the mapper is caught and written as an error; an invalid product is written as an
  error; otherwise the product is posted and the result written.
\<close>

definition loop_body :: "services \<Rightarrow> cell list \<Rightarrow> nat \<Rightarrow> cell list \<Rightarrow> world \<Rightarrow> world" where
  "loop_body svc headers rowIndex rowData w =
     (if is_blank rowData then w
      else (case mapRowToProduct headers rowData of
              Inl error \<Rightarrow> updateSyncStatus w rowIndex (ERROR (Uncaught error))
            | Inr p \<Rightarrow>
                if \<not> isValidProduct p then updateSyncStatus w rowIndex (ERROR (InvalidRow rowIndex))
                else (case createShopifyProduct svc p w of
                        (Success ident d, w') \<Rightarrow>
                          updateSyncStatus w' rowIndex (Synced (now svc rowIndex) ident)
                      | (Failure error, w') \<Rightarrow> updateSyncStatus w' rowIndex (ERROR error))))"

text \<open>\<^verbatim>\<open>data[rowIndex - 1]\<close>: \<open>None\<close> where the array has no such row.\<close>

definition row_at :: "cell list list \<Rightarrow> nat \<Rightarrow> cell list option" where
  "row_at data rowIndex =
     (if 1 \<le> rowIndex \<and> rowIndex \<le> length data then Some (data ! (rowIndex - 1)) else None)"

text \<open>
  The \<^verbatim>\<open>for\<close> loop from \<open>rowIndex\<close> to \<open>currentLastRow\<close>. Joining a row that is not
  there raises outside the \<^verbatim>\<open>try\<close> block and ends the pass: the result is the uncaught
  exception, if any, and the world as the loop left it.
\<close>

function for_rows ::
  "services \<Rightarrow> cell list \<Rightarrow> cell list list \<Rightarrow> nat \<Rightarrow> nat \<Rightarrow> world \<Rightarrow> exn option \<times> world" where
  "for_rows svc headers data currentLastRow rowIndex w =
     (if rowIndex \<le> currentLastRow then
        (case row_at data rowIndex of
           None \<Rightarrow> (Some (TypeError ''Cannot read properties of undefined (reading 'join')''), w)
         | Some rowData \<Rightarrow>
             for_rows svc headers data currentLastRow (Suc rowIndex)
               (loop_body svc headers rowIndex rowData w))
      else (None, w))"
  by pat_completeness auto
termination
  by (relation "measure (\<lambda>(svc, headers, data, currentLastRow, rowIndex, w).
                           Suc currentLastRow - rowIndex)") auto

declare for_rows.simps [simp del]

definition checkForNewProducts :: "services \<Rightarrow> sheet \<Rightarrow> world \<Rightarrow> exn option \<times> world" where
  "checkForNewProducts svc sh w =
     (let data = getValues sh;
          headers = hd data;
          currentLastRow = getLastDataRow sh
      in if stored_row w < currentLastRow then
           (case for_rows svc headers data currentLastRow (stored_row w + 1) w of
              (Some error, w') \<Rightarrow> (Some error, w')
            | (None, w') \<Rightarrow> (None, w'\<lparr>lastProcessedRow := Some currentLastRow\<rparr>))
         else (None, w))"

text \<open>
  A sequence of passes, each with the services and the sheet it finds, and the world
  when the loop of a pass reaches row \<open>i\<close>.
\<close>

definition run_passes :: "(services \<times> sheet) list \<Rightarrow> world \<Rightarrow> world" where
  "run_passes passes w = foldl (\<lambda>w' (svc, sh). snd (checkForNewProducts svc sh w')) w passes"

definition world_before :: "services \<Rightarrow> sheet \<Rightarrow> world \<Rightarrow> nat \<Rightarrow> world" where
  "world_before svc sh w i =
     snd (for_rows svc (hd (getValues sh)) (getValues sh) (i - 1) (stored_row w + 1) w)"

text \<open>
  For examples: the world before the script ever ran, and a shop that gives the same
  answer to every request.
\<close>

definition new_world :: world where
  "new_world = \<lparr>lastProcessedRow = None, statuses = [], posted = []\<rparr>"

definition answering :: "fetch_result \<Rightarrow> services" where
  "answering r = \<lparr>fetch = (\<lambda>before p. r), now = (\<lambda>i. ''now'')\<rparr>"

text \<open>
  An example pass: a sheet with a header row, a row with a barcode and no title, a blank
  row and a row with a title, tracked from the header row on, and a shop that rejects
  every product with the status code 422.
\<close>

definition example_sheet :: sheet where
  "example_sheet =
     [[CStr ''Title'', CStr ''Barcode''],
      [CStr [], CStr ''012345''],
      [CStr [], CStr []],
      [CStr ''Widget'', CStr ''999'']]"

definition example_world :: world where
  "example_world = new_world\<lparr>lastProcessedRow := Some 1\<rparr>"

definition example_errors :: json where
  "example_errors = JObject [(''errors'', JObject [(''title'', JArray [JString ''can't be blank''])])]"

definition example_shop :: services where
  "example_shop = answering (Response 422 (Inr example_errors))"

section \<open>Properties of the field mapper\<close>

subsection \<open>Columns one after the other\<close>














subsection \<open>The header names of the groups\<close>







subsection \<open>Option columns\<close>



subsection \<open>Skipped values\<close>




subsection \<open>The published flag\<close>



subsection \<open>Quantity and weight\<close>


lemma number_of_decimal_not_NaN: "number_of_decimal m e \<noteq> NaN"
  by (auto simp: number_of_decimal_def Let_def split: prod.splits)















subsection \<open>Two columns for one field\<close>










section \<open>Properties of the catalog client\<close>

lemma get_property_truthy: "truthy found \<Longrightarrow> \<exists>ident. get_property found name = Inr ident"
  by (cases found) (simp_all add: truthy_def get_property_def)


text \<open>
  Claim C8, amended. \<^verbatim>\<open>createShopifyProduct\<close> raises nothing: it returns a success or a
  failure. It returns a success exactly when the request returns a response with a
  status code from 200 to 299 whose body parses to a value with a truthy property
  \<^verbatim>\<open>product\<close>; the success carries the \<^verbatim>\<open>id\<close> of that property and the property
  itself. Every other case is a failure with an error text: a status code out of range
  or a \<^verbatim>\<open>product\<close> that is missing or falsy gives the text of the code and the body,
  and an exception of the request or of the parser, or of reading \<^verbatim>\<open>product\<close> from a
  body that is \<^verbatim>\<open>null\<close>, gives the text of the exception.
\<close>

theorem create_succeeds_for_truthy_product:
  "(\<forall>svc p w.
      (\<exists>ident d. fst (createShopifyProduct svc p w) = Success ident d) \<longleftrightarrow>
      (\<exists>code body found.
         fetch svc (posted w) p = Response code (Inr body) \<and> 200 \<le> code \<and> code < 300 \<and>
         get_property body ''product'' = Inr (Some found) \<and> truthy found)) \<and>
   (\<forall>svc p w code body found.
      fetch svc (posted w) p = Response code (Inr body) \<and> 200 \<le> code \<and> code < 300 \<and>
      get_property body ''product'' = Inr (Some found) \<and> truthy found \<longrightarrow>
      (\<exists>ident. get_property found ''id'' = Inr ident \<and>
               fst (createShopifyProduct svc p w) = Success ident found)) \<and>
   (\<forall>svc p w.
      (\<nexists>ident d. fst (createShopifyProduct svc p w) = Success ident d) \<longrightarrow>
      (\<exists>m. fst (createShopifyProduct svc p w) = Failure m)) \<and>
   (\<forall>svc p w code body.
      fetch svc (posted w) p = Response code (Inr body) \<and> \<not> (200 \<le> code \<and> code < 300) \<longrightarrow>
      fst (createShopifyProduct svc p w) = Failure (ApiError code body)) \<and>
   (\<forall>svc p w code body.
      fetch svc (posted w) p = Response code (Inr body) \<and> 200 \<le> code \<and> code < 300 \<and>
      (get_property body ''product'' = Inr None \<or>
       (\<exists>found. get_property body ''product'' = Inr (Some found) \<and> \<not> truthy found)) \<longrightarrow>
      fst (createShopifyProduct svc p w) = Failure (ApiError code body)) \<and>
   (\<forall>svc p w code.
      fetch svc (posted w) p = Response code (Inr JNull) \<and> 200 \<le> code \<and> code < 300 \<longrightarrow>
      (\<exists>e. fst (createShopifyProduct svc p w) = Failure (Uncaught e))) \<and>
   (\<forall>svc p w e.
      fetch svc (posted w) p = Raised e \<or> (\<exists>code. fetch svc (posted w) p = Response code (Inl e)) \<longrightarrow>
      fst (createShopifyProduct svc p w) = Failure (Uncaught e))"
proof (intro conjI allI impI)
  fix svc p w
  show "(\<exists>ident d. fst (createShopifyProduct svc p w) = Success ident d) \<longleftrightarrow>
      (\<exists>code body found.
         fetch svc (posted w) p = Response code (Inr body) \<and> 200 \<le> code \<and> code < 300 \<and>
         get_property body ''product'' = Inr (Some found) \<and> truthy found)"
  proof
    assume "\<exists>ident d. fst (createShopifyProduct svc p w) = Success ident d"
    then show "\<exists>code body found.
         fetch svc (posted w) p = Response code (Inr body) \<and> 200 \<le> code \<and> code < 300 \<and>
         get_property body ''product'' = Inr (Some found) \<and> truthy found"
      by (auto simp: createShopifyProduct_def try_create_def Let_def
          split: fetch_result.splits sum.splits if_splits option.splits)
  next
    assume "\<exists>code body found.
         fetch svc (posted w) p = Response code (Inr body) \<and> 200 \<le> code \<and> code < 300 \<and>
         get_property body ''product'' = Inr (Some found) \<and> truthy found"
    then obtain code body found where a:
      "fetch svc (posted w) p = Response code (Inr body)" "200 \<le> code" "code < 300"
      "get_property body ''product'' = Inr (Some found)" "truthy found"
      by blast
    from get_property_truthy [OF a(5)] obtain ident where "get_property found ''id'' = Inr ident" ..
    with a have "fst (createShopifyProduct svc p w) = Success ident found"
      by (simp add: createShopifyProduct_def try_create_def Let_def)
    then show "\<exists>ident d. fst (createShopifyProduct svc p w) = Success ident d" by blast
  qed
next
  fix svc :: services and p :: product and w :: world and code body found
  assume a: "fetch svc (posted w) p = Response code (Inr body) \<and> 200 \<le> code \<and> code < 300 \<and>
      get_property body ''product'' = Inr (Some found) \<and> truthy found"
  then have "truthy found" by simp
  from get_property_truthy [OF this] obtain ident where i: "get_property found ''id'' = Inr ident" ..
  with a have "fst (createShopifyProduct svc p w) = Success ident found"
    by (simp add: createShopifyProduct_def try_create_def Let_def)
  with i show "\<exists>ident. get_property found ''id'' = Inr ident \<and>
               fst (createShopifyProduct svc p w) = Success ident found"
    by blast
next
  fix svc :: services and p :: product and w :: world
  assume "\<nexists>ident d. fst (createShopifyProduct svc p w) = Success ident d"
  then show "\<exists>m. fst (createShopifyProduct svc p w) = Failure m"
    by (cases "fst (createShopifyProduct svc p w)") auto
next
  fix svc :: services and p :: product and w :: world and code body
  assume "fetch svc (posted w) p = Response code (Inr body) \<and> \<not> (200 \<le> code \<and> code < 300)"
  then show "fst (createShopifyProduct svc p w) = Failure (ApiError code body)"
    by (auto simp: createShopifyProduct_def try_create_def Let_def)
next
  fix svc :: services and p :: product and w :: world and code body
  assume "fetch svc (posted w) p = Response code (Inr body) \<and> 200 \<le> code \<and> code < 300 \<and>
      (get_property body ''product'' = Inr None \<or>
       (\<exists>found. get_property body ''product'' = Inr (Some found) \<and> \<not> truthy found))"
  then show "fst (createShopifyProduct svc p w) = Failure (ApiError code body)"
    by (auto simp: createShopifyProduct_def try_create_def Let_def)
next
  fix svc :: services and p :: product and w :: world and code
  assume "fetch svc (posted w) p = Response code (Inr JNull) \<and> 200 \<le> code \<and> code < 300"
  then show "\<exists>e. fst (createShopifyProduct svc p w) = Failure (Uncaught e)"
    by (auto simp: createShopifyProduct_def try_create_def Let_def get_property_def)
next
  fix svc :: services and p :: product and w :: world and e
  assume "fetch svc (posted w) p = Raised e \<or>
      (\<exists>code. fetch svc (posted w) p = Response code (Inl e))"
  then show "fst (createShopifyProduct svc p w) = Failure (Uncaught e)"
    by (auto simp: createShopifyProduct_def try_create_def Let_def)
qed

text \<open>
  The answer 422 with a body of errors is a failure with that code and body; the answer
  201 with a product of id 7 is a success with that id.
\<close>

theorem create_succeeds_for_truthy_product_witness:
  "fst (createShopifyProduct
          (answering (Response 422
             (Inr (JObject [(''errors'', JObject [(''title'', JArray [JString ''can't be blank''])])]))))
          new_product new_world) =
     Failure (ApiError 422
        (JObject [(''errors'', JObject [(''title'', JArray [JString ''can't be blank''])])])) \<and>
   fst (createShopifyProduct
          (answering (Response 201 (Inr (JObject [(''product'', JObject [(''id'', JNumber (Fin 7 0))])]))))
          new_product new_world) =
     Success (Some (JNumber (Fin 7 0))) (JObject [(''id'', JNumber (Fin 7 0))])"
proof -
  note fail = create_succeeds_for_truthy_product [THEN conjunct2, THEN conjunct2, THEN conjunct2,
      THEN conjunct1, rule_format]
  note succeed = create_succeeds_for_truthy_product [THEN conjunct2, THEN conjunct1, rule_format]
  have a: "fst (createShopifyProduct
          (answering (Response 422
             (Inr (JObject [(''errors'', JObject [(''title'', JArray [JString ''can't be blank''])])]))))
          new_product new_world) =
     Failure (ApiError 422
        (JObject [(''errors'', JObject [(''title'', JArray [JString ''can't be blank''])])]))"
    by (rule fail) (simp add: answering_def)
  have "\<exists>ident. get_property (JObject [(''id'', JNumber (Fin 7 0))]) ''id'' = Inr ident \<and>
      fst (createShopifyProduct
          (answering (Response 201 (Inr (JObject [(''product'', JObject [(''id'', JNumber (Fin 7 0))])]))))
          new_product new_world) = Success ident (JObject [(''id'', JNumber (Fin 7 0))])"
    by (rule succeed [where code = 201
          and body = "JObject [(''product'', JObject [(''id'', JNumber (Fin 7 0))])]"])
       (simp add: answering_def get_property_def truthy_def)
  then have b: "fst (createShopifyProduct
          (answering (Response 201 (Inr (JObject [(''product'', JObject [(''id'', JNumber (Fin 7 0))])]))))
          new_product new_world) =
     Success (Some (JNumber (Fin 7 0))) (JObject [(''id'', JNumber (Fin 7 0))])"
    by (auto simp: get_property_def)
  from a b show ?thesis ..
qed

text \<open>
  Claim C8 as stated fails: a body whose \<^verbatim>\<open>product\<close> is \<^verbatim>\<open>true\<close>, which is no object,
  gives a success with an \<^verbatim>\<open>id\<close> that is \<^verbatim>\<open>undefined\<close>.
\<close>

theorem create_succeeds_without_product_object_counterexample:
  "fst (createShopifyProduct (answering (Response 200 (Inr (JObject [(''product'', JBool True)]))))
         new_product new_world) = Success None (JBool True)"
  by (simp add: createShopifyProduct_def try_create_def answering_def get_property_def truthy_def
      new_world_def)

section \<open>Properties of the sync loop\<close>

subsection \<open>The stored row as text\<close>

text \<open>
  A row count below \<open>10 ^ 21\<close> is written as its decimal digits, and \<^verbatim>\<open>parseInt\<close> reads
  these digits back as the same number; an unset property reads as zero. This is why the
  property is kept as a count in \<open>world\<close>.
\<close>

lemma digit_char:
  assumes "0 \<le> k" and "k < 10"
  shows "is_digit (''0123456789'' ! nat k)" and "digit_value (''0123456789'' ! nat k) = nat k"
proof -
  from assms have "k = 0 \<or> k = 1 \<or> k = 2 \<or> k = 3 \<or> k = 4 \<or> k = 5 \<or> k = 6 \<or> k = 7 \<or>
      k = 8 \<or> k = 9"
    by arith
  then show "is_digit (''0123456789'' ! nat k)" and "digit_value (''0123456789'' ! nat k) = nat k"
    by (auto simp: is_digit_def digit_value_def)
qed

lemma int_digits_digits:
  "0 \<le> n \<Longrightarrow> int_digits n \<noteq> [] \<and> (\<forall>c \<in> set (int_digits n). is_digit c)"
proof (induction n rule: int_digits.induct)
  case (1 n)
  show ?case
  proof (cases "n < 10")
    case True
    with "1.prems" show ?thesis
      by (subst int_digits.simps, subst (2) int_digits.simps) (simp add: digit_char)
  next
    case False
    with "1.prems" have "0 \<le> n div 10" "0 \<le> n mod 10" "n mod 10 < 10" by simp_all
    with "1.IH" False show ?thesis
      by (subst int_digits.simps, subst (2) int_digits.simps) (simp add: digit_char)
  qed
qed

lemma digits_value_snoc:
  "digits_value r (xs @ [c]) = digits_value r xs * r + int (digit_value c)"
  by (simp add: digits_value_def)

lemma digits_value_int_digits: "0 \<le> n \<Longrightarrow> digits_value 10 (int_digits n) = n"
proof (induction n rule: int_digits.induct)
  case (1 n)
  show ?case
  proof (cases "n < 10")
    case True
    with "1.prems" show ?thesis
      by (subst int_digits.simps) (simp add: digits_value_def digit_char)
  next
    case False
    with "1.prems" have "0 \<le> n div 10" "0 \<le> n mod 10" "n mod 10 < 10" by simp_all
    with "1.IH" False show ?thesis
      by (subst int_digits.simps) (simp add: digits_value_snoc digit_char)
  qed
qed

lemma int_digits_times_10: "0 < s \<Longrightarrow> int_digits (s * 10) = int_digits s @ ''0''"
  by (subst int_digits.simps) simp

lemma int_digits_shift:
  "0 < s \<Longrightarrow> int_digits (s * 10 ^ e) = int_digits s @ replicate e CHR ''0''"
proof (induction e)
  case 0
  then show ?case by simp
next
  case (Suc e)
  then have "0 < s * 10 ^ e" by simp
  from int_digits_times_10 [OF this]
  have "int_digits (s * 10 ^ e * 10) = int_digits (s * 10 ^ e) @ ''0''" .
  moreover have "s * 10 ^ Suc e = s * 10 ^ e * 10" by simp
  ultimately have "int_digits (s * 10 ^ Suc e) = int_digits (s * 10 ^ e) @ ''0''"
    by (rule ssubst [where P = "\<lambda>x. int_digits x = int_digits (s * 10 ^ e) @ ''0''", rotated])
  with Suc show ?case by (simp add: replicate_append_same)
qed

lemma int_digits_length: "0 < n \<Longrightarrow> 10 ^ (length (int_digits n) - 1) \<le> n"
proof (induction n rule: int_digits.induct)
  case (1 n)
  show ?case
  proof (cases "n < 10")
    case True
    with "1.prems" show ?thesis by (subst int_digits.simps) simp
  next
    case False
    then have pos: "0 < n div 10" by simp
    with "1.IH" False have "10 ^ (length (int_digits (n div 10)) - 1) \<le> n div 10" by simp
    then have "10 * 10 ^ (length (int_digits (n div 10)) - 1) \<le> 10 * (n div 10)" by simp
    also have "\<dots> \<le> n" by simp
    finally have le: "10 * 10 ^ (length (int_digits (n div 10)) - 1) \<le> n" .
    from int_digits_digits [of "n div 10"] pos
    have "int_digits (n div 10) \<noteq> []" by simp
    then obtain c cs where cs: "int_digits (n div 10) = c # cs"
      by (cases "int_digits (n div 10)") simp_all
    from False have "int_digits n = int_digits (n div 10) @ [''0123456789'' ! nat (n mod 10)]"
      by (subst int_digits.simps) simp
    with cs le show ?thesis by simp
  qed
qed

lemma strip_zeros_value:
  "0 < m \<Longrightarrow> strip_zeros m e = (s, e') \<Longrightarrow> 0 < s \<and> e \<le> e' \<and> m = s * 10 ^ nat (e' - e)"
proof (induction m e rule: strip_zeros.induct)
  case (1 m e)
  show ?case
  proof (cases "m mod 10 = 0")
    case True
    with "1.prems" have rec: "strip_zeros (m div 10) (e + 1) = (s, e')"
      by (subst (asm) strip_zeros.simps) simp
    from True "1.prems"(1) have pos: "0 < m div 10" by presburger
    from "1.IH" [OF _ pos rec] True "1.prems"(1)
    have IH: "0 < s" "e + 1 \<le> e'" "m div 10 = s * 10 ^ nat (e' - (e + 1))" by simp_all
    from IH(2) have "nat (e' - e) = Suc (nat (e' - (e + 1)))" by simp
    moreover from True have "m = 10 * (m div 10)" by presburger
    ultimately have "m = s * 10 ^ nat (e' - e)" using IH(3) by simp
    with IH show ?thesis by simp
  next
    case False
    with "1.prems" show ?thesis by (subst (asm) strip_zeros.simps) auto
  qed
qed

lemma digit_not_special:
  assumes "is_digit c"
  shows "\<not> is_whitespace c" and "c \<noteq> CHR ''+''" and "c \<noteq> CHR ''-''" and "c \<noteq> CHR ''x''"
    and "c \<noteq> CHR ''X''"
  using assms by (auto simp: is_digit_def is_whitespace_def)

lemma takeWhile_all: "\<forall>c \<in> set s. P c \<Longrightarrow> takeWhile P s = s"
  by (induction s) simp_all

lemma parseInt_string_int_digits:
  assumes "0 \<le> n"
  shows "parseInt_string (int_digits n) = number_of_decimal n 0"
proof -
  from int_digits_digits [OF assms] obtain c cs
    where s: "int_digits n = c # cs" and d: "\<forall>c \<in> set (c # cs). is_digit c"
    by (cases "int_digits n") auto
  from d have c: "is_digit c" by simp
  note c' = digit_not_special [OF c]
  have x: "take 2 (c # cs) \<noteq> ''0x''" "take 2 (c # cs) \<noteq> ''0X''"
  proof -
    show "take 2 (c # cs) \<noteq> ''0x''"
    proof (cases cs)
      case Nil then show ?thesis by simp
    next
      case (Cons b bs)
      with d have "is_digit b" by simp
      from digit_not_special(4) [OF this] Cons show ?thesis by simp
    qed
    show "take 2 (c # cs) \<noteq> ''0X''"
    proof (cases cs)
      case Nil then show ?thesis by simp
    next
      case (Cons b bs)
      with d have "is_digit b" by simp
      from digit_not_special(5) [OF this] Cons show ?thesis by simp
    qed
  qed
  define S where "S = int_digits n"
  have t: "takeWhile is_digit S = S" using d unfolding S_def s by (rule takeWhile_all)
  have v: "digits_value 10 S = n" using digits_value_int_digits [OF assms] by (simp add: S_def)
  have w: "trimStart S = S" using c'(1) by (simp add: trimStart_def S_def s)
  have h: "hd S \<noteq> CHR ''+''" "hd S \<noteq> CHR ''-''" "S \<noteq> []" using c' by (simp_all add: S_def s)
  have x': "take 2 S \<noteq> ''0x''" "take 2 S \<noteq> ''0X''" using x unfolding S_def s by blast+
  have "parseInt_string S = number_of_decimal n 0"
    unfolding parseInt_string_def by (simp only: Let_def w h x' t v if_False not_False_eq_True
      simp_thms if_True)
  then show ?thesis by (simp only: S_def)
qed

lemma strip_zeros_stripped: "strip_zeros m e = (s, e') \<Longrightarrow> \<not> (0 < s \<and> s mod 10 = 0)"
proof (induction m e rule: strip_zeros.induct)
  case (1 m e)
  show ?case
  proof (cases "0 < m \<and> m mod 10 = 0")
    case True
    with "1.prems" have "strip_zeros (m div 10) (e + 1) = (s, e')"
      by (subst (asm) strip_zeros.simps) simp
    with "1.IH" True show ?thesis by simp
  next
    case False
    with "1.prems" show ?thesis by (subst (asm) strip_zeros.simps) auto
  qed
qed

lemma number_to_string_integer:
  assumes "0 \<le> n" and "n < 10 ^ 21"
  shows "number_to_string (number_of_decimal n 0) = int_digits n"
proof (cases "n = 0")
  case True
  have "number_of_decimal 0 0 = Fin 0 0" by (simp add: number_of_decimal_def)
  moreover have "int_digits 0 = ''0''" by (subst int_digits.simps) simp
  ultimately show ?thesis using True by (simp add: number_to_string_def)
next
  case False
  with assms have pos: "0 < n" by simp
  obtain s e where se: "strip_zeros n 0 = (s, e)" by (cases "strip_zeros n 0")
  from strip_zeros_value [OF pos se] have s: "0 < s" "0 \<le> e" "n = s * 10 ^ nat e" by simp_all
  have "(10::int) ^ 21 < 2 ^ 1024 - 2 ^ 970" by simp
  with assms(2) have small: "\<not> 2 ^ 1024 - 2 ^ 970 \<le> n" by linarith
  from pos small se have num: "number_of_decimal n 0 = Fin s e"
    by (simp add: number_of_decimal_def Let_def)
  from int_digits_shift [OF s(1), of "nat e"] s(3)
  have digits: "int_digits n = int_digits s @ replicate (nat e) CHR ''0''" by simp
  from int_digits_length [OF pos] assms(2)
  have "(10::int) ^ (length (int_digits n) - 1) < 10 ^ 21" by linarith
  then have "length (int_digits n) - 1 < 21" by (simp only: power_strict_increasing_iff [of 10])
  with digits s(2) have len: "int (length (int_digits s)) + e \<le> 21" by simp
  from strip_zeros_stripped [OF se] have again: "strip_zeros s e = (s, e)"
    by (subst strip_zeros.simps) auto
  from s(1) s(2) len again digits show ?thesis
    unfolding num by (simp add: number_to_string_def positive_to_string_def Let_def)
qed

lemma number_of_decimal_value:
  assumes "0 \<le> n" and "n < 10 ^ 21"
  shows "\<exists>s e. number_of_decimal n 0 = Fin s e \<and> 0 \<le> e \<and> s * 10 ^ nat e = n"
proof (cases "n = 0")
  case True
  then show ?thesis by (simp add: number_of_decimal_def)
next
  case False
  with assms have pos: "0 < n" by simp
  obtain s e where se: "strip_zeros n 0 = (s, e)" by (cases "strip_zeros n 0")
  from strip_zeros_value [OF pos se] have s: "0 \<le> e" "n = s * 10 ^ nat e" by simp_all
  have "(10::int) ^ 21 < 2 ^ 1024 - 2 ^ 970" by simp
  with assms(2) have "\<not> 2 ^ 1024 - 2 ^ 970 \<le> n" by linarith
  with pos se have "number_of_decimal n 0 = Fin s e"
    by (simp add: number_of_decimal_def Let_def)
  with s show ?thesis by simp
qed

lemma read_row_unset: "read_row None = Fin 0 0" "read_row (Some []) = Fin 0 0"
  by (simp_all add: read_row_def parseInt_string_def trimStart_def is_whitespace_def is_digit_def
      digits_value_def digit_value_def number_of_decimal_def Let_def)

lemma read_row_written_row:
  assumes "n < 10 ^ 21"
  shows "read_row (Some (written_row n)) = number_of_decimal (int n) 0"
    and "\<exists>s e. read_row (Some (written_row n)) = Fin s e \<and> 0 \<le> e \<and> s * 10 ^ nat e = int n"
proof -
  from assms have "int n < int (10 ^ 21)" by (simp only: of_nat_less_iff)
  then have n: "0 \<le> int n" "int n < 10 ^ 21" by simp_all
  from number_to_string_integer [OF n] have t: "written_row n = int_digits (int n)"
    by (simp add: written_row_def)
  from int_digits_digits [OF n(1)] have "int_digits (int n) \<noteq> []" by simp
  with t parseInt_string_int_digits [OF n(1)]
  show r: "read_row (Some (written_row n)) = number_of_decimal (int n) 0"
    by (simp add: read_row_def)
  from number_of_decimal_value [OF n] r
  show "\<exists>s e. read_row (Some (written_row n)) = Fin s e \<and> 0 \<le> e \<and> s * 10 ^ nat e = int n"
    by simp
qed

lemma written_row_example:
  "written_row 4 = ''4''" "written_row 120 = ''120''" "read_row (Some ''120'') = Fin 12 1"
  by code_simp+

subsection \<open>Rows one after the other\<close>

lemma getValues_rows: "sh \<noteq> [] \<Longrightarrow> getValues sh = sh"
  by (simp add: getValues_def)

lemma for_rows_done:
  "currentLastRow < rowIndex \<Longrightarrow> for_rows svc headers data currentLastRow rowIndex w = (None, w)"
  by (subst for_rows.simps) simp

lemma for_rows_step:
  "rowIndex \<le> currentLastRow \<Longrightarrow> 1 \<le> rowIndex \<Longrightarrow> rowIndex \<le> length data \<Longrightarrow>
   for_rows svc headers data currentLastRow rowIndex w =
     for_rows svc headers data currentLastRow (Suc rowIndex)
       (loop_body svc headers rowIndex (data ! (rowIndex - 1)) w)"
  by (subst for_rows.simps) (simp add: row_at_def)

lemma for_rows_last:
  assumes "1 \<le> rowIndex" and "rowIndex \<le> Suc n" and "Suc n \<le> length data"
  shows "for_rows svc headers data (Suc n) rowIndex w =
           (None, loop_body svc headers (Suc n) (data ! n)
                    (snd (for_rows svc headers data n rowIndex w))) \<and>
         fst (for_rows svc headers data n rowIndex w) = None"
  using assms
proof (induction "Suc n - rowIndex" arbitrary: rowIndex w)
  case 0
  then have eq: "rowIndex = Suc n" by simp
  show ?case
    using "0.prems" unfolding eq
    by (simp add: for_rows_step [of "Suc n" "Suc n"] for_rows_done)
next
  case (Suc d)
  then have le: "rowIndex \<le> n" by simp
  from Suc.hyps(2) have d: "d = Suc n - Suc rowIndex" by simp
  have IH: "for_rows svc headers data (Suc n) (Suc rowIndex) w' =
           (None, loop_body svc headers (Suc n) (data ! n)
                    (snd (for_rows svc headers data n (Suc rowIndex) w'))) \<and>
         fst (for_rows svc headers data n (Suc rowIndex) w') = None" for w'
    using Suc.hyps(1) [OF d] le Suc.prems by simp
  have s1: "for_rows svc headers data (Suc n) rowIndex w =
      for_rows svc headers data (Suc n) (Suc rowIndex)
        (loop_body svc headers rowIndex (data ! (rowIndex - 1)) w)"
    using Suc.prems le by (intro for_rows_step) simp_all
  have s2: "for_rows svc headers data n rowIndex w =
      for_rows svc headers data n (Suc rowIndex)
        (loop_body svc headers rowIndex (data ! (rowIndex - 1)) w)"
    using Suc.prems le by (intro for_rows_step) simp_all
  show ?case unfolding s1 s2 by (rule IH)
qed

lemma for_rows_completes:
  assumes "1 \<le> rowIndex" and "n \<le> length data"
  shows "fst (for_rows svc headers data n rowIndex w) = None"
proof (cases "n < rowIndex")
  case True
  then show ?thesis by (simp add: for_rows_done)
next
  case False
  then have "rowIndex \<le> Suc n" "Suc n \<le> Suc (length data)" using assms by simp_all
  show ?thesis
  proof (cases n)
    case 0
    with False assms show ?thesis by simp
  next
    case (Suc m)
    with False assms have "rowIndex \<le> Suc m" "Suc m \<le> length data" by simp_all
    from for_rows_last [OF assms(1) this, of svc headers w]
    show ?thesis unfolding Suc by simp
  qed
qed

lemma world_before_first: "world_before svc sh w (Suc (stored_row w)) = w"
  by (simp add: world_before_def for_rows_done)

lemma world_before_next:
  assumes "stored_row w < i" and "i \<le> getLastDataRow sh"
  shows "world_before svc sh w (Suc i) =
           loop_body svc (hd sh) i (sh ! (i - 1)) (world_before svc sh w i)"
proof -
  from assms have ne: "sh \<noteq> []" by (auto simp: getLastDataRow_def)
  from assms obtain n where n: "i = Suc n" by (cases i) auto
  have "for_rows svc (hd sh) sh (Suc n) (stored_row w + 1) w =
           (None, loop_body svc (hd sh) (Suc n) (sh ! n)
                    (snd (for_rows svc (hd sh) sh n (stored_row w + 1) w))) \<and>
         fst (for_rows svc (hd sh) sh n (stored_row w + 1) w) = None"
    using assms n by (intro for_rows_last) (simp_all add: getLastDataRow_def)
  then show ?thesis
    by (simp add: world_before_def getValues_rows [OF ne] n)
qed

lemma checkForNewProducts_new_rows:
  assumes "stored_row w < getLastDataRow sh"
  shows "checkForNewProducts svc sh w =
           (None, (world_before svc sh w (Suc (getLastDataRow sh)))
                    \<lparr>lastProcessedRow := Some (getLastDataRow sh)\<rparr>)"
proof -
  from assms have ne: "sh \<noteq> []" by (auto simp: getLastDataRow_def)
  have "fst (for_rows svc (hd sh) sh (length sh) (stored_row w + 1) w) = None"
    by (rule for_rows_completes) simp_all
  with assms show ?thesis
    by (auto simp: checkForNewProducts_def Let_def getValues_rows [OF ne] world_before_def
        getLastDataRow_def split: prod.splits option.splits)
qed

lemma checkForNewProducts_no_new_rows:
  "getLastDataRow sh \<le> stored_row w \<Longrightarrow> checkForNewProducts svc sh w = (None, w)"
  by (simp add: checkForNewProducts_def Let_def)

text \<open>The statuses one row adds, and those the rows before row \<open>i\<close> added.\<close>

lemma loop_body_statuses:
  "\<exists>new. statuses (loop_body svc headers i rowData w) = statuses w @ new \<and>
         (\<forall>x \<in> set new. fst x = i \<and> \<not> is_blank rowData)"
  by (auto simp: loop_body_def updateSyncStatus_def createShopifyProduct_def Let_def
      split: sum.splits created.splits prod.splits)

lemma loop_body_blank: "is_blank rowData \<Longrightarrow> loop_body svc headers i rowData w = w"
  by (simp add: loop_body_def)

lemma world_before_statuses:
  assumes "stored_row w < i" and "i \<le> Suc (getLastDataRow sh)"
  shows "\<exists>new. statuses (world_before svc sh w i) = statuses w @ new \<and>
           (\<forall>x \<in> set new. stored_row w < fst x \<and> fst x < i \<and> \<not> is_blank (sh ! (fst x - 1)))"
  using assms
proof (induction i)
  case 0
  then show ?case by simp
next
  case (Suc i)
  show ?case
  proof (cases "stored_row w < i")
    case True
    with Suc obtain new where new: "statuses (world_before svc sh w i) = statuses w @ new"
      "\<forall>x \<in> set new. stored_row w < fst x \<and> fst x < i \<and> \<not> is_blank (sh ! (fst x - 1))"
      by auto
    from loop_body_statuses [of svc "hd sh" i "sh ! (i - 1)" "world_before svc sh w i"]
    obtain more where more: "statuses (loop_body svc (hd sh) i (sh ! (i - 1)) (world_before svc sh w i)) =
        statuses (world_before svc sh w i) @ more"
      "\<forall>x \<in> set more. fst x = i \<and> \<not> is_blank (sh ! (i - 1))"
      by blast
    from True Suc.prems new(1) more(1)
    have "statuses (world_before svc sh w (Suc i)) = statuses w @ (new @ more)"
      by (simp add: world_before_next)
    moreover from new(2) more(2) True
    have "\<forall>x \<in> set (new @ more). stored_row w < fst x \<and> fst x < Suc i \<and> \<not> is_blank (sh ! (fst x - 1))"
      by auto
    ultimately show ?thesis by blast
  next
    case False
    with Suc.prems have "i = stored_row w" by simp
    then show ?thesis by (simp add: world_before_first)
  qed
qed



subsection \<open>What a pass writes\<close>




lemma stored_row_after_pass:
  "stored_row (snd (checkForNewProducts svc sh w)) = max (stored_row w) (getLastDataRow sh)"
proof (cases "stored_row w < getLastDataRow sh")
  case True
  then show ?thesis
    by (simp add: checkForNewProducts_new_rows stored_row_def)
next
  case False
  then show ?thesis
    by (simp add: checkForNewProducts_no_new_rows)
qed

lemma stored_row_run_passes: "stored_row w \<le> stored_row (run_passes passes w)"
proof (induction passes arbitrary: w)
  case Nil
  then show ?case by (simp add: run_passes_def)
next
  case (Cons a passes)
  obtain svc sh where a: "a = (svc, sh)" by (cases a)
  have "stored_row w \<le> stored_row (snd (checkForNewProducts svc sh w))"
    by (simp add: stored_row_after_pass)
  also have "\<dots> \<le> stored_row (run_passes passes (snd (checkForNewProducts svc sh w)))"
    by (rule Cons.IH)
  finally show ?case by (simp add: run_passes_def a)
qed

lemma pass_statuses:
  "\<exists>new. statuses (snd (checkForNewProducts svc sh w)) = statuses w @ new \<and>
         (\<forall>x \<in> set new. stored_row w < fst x \<and> fst x \<le> getLastDataRow sh \<and>
                          \<not> is_blank (sh ! (fst x - 1)))"
proof (cases "stored_row w < getLastDataRow sh")
  case True
  from world_before_statuses [of w "Suc (getLastDataRow sh)" sh svc] True
  show ?thesis by (auto simp: checkForNewProducts_new_rows [OF True] less_Suc_eq_le)
next
  case False
  then show ?thesis by (simp add: checkForNewProducts_no_new_rows)
qed

subsection \<open>The example pass\<close>

lemma example_pass:
  "checkForNewProducts example_shop example_sheet example_world =
     (None, \<lparr>lastProcessedRow = Some 4,
              statuses = [(2, ERROR (InvalidRow 2)), (4, ERROR (ApiError 422 example_errors))],
              posted = [new_product\<lparr>title := Some (CStr ''Widget''),
                          variant0 := new_variant\<lparr>barcode := Some ''999''\<rparr>\<rparr>]\<rparr>)"
  by code_simp



lemma ex_row3: "is_blank (example_sheet ! (3 - 1))"
  by code_simp


subsection \<open>Failures of single rows\<close>



subsection \<open>The stored row\<close>

text \<open>
  Claim C4. The stored row never decreases, in one pass and in any sequence of passes.
  A pass that finds no row beyond the stored row changes nothing, neither the stored row
  nor the statuses in the sheet nor the shop; so a second pass over a sheet with as many
  rows as the first pass found changes nothing.
\<close>

theorem watermark_never_decreases:
  "(\<forall>svc sh w. stored_row w \<le> stored_row (snd (checkForNewProducts svc sh w))) \<and>
   (\<forall>passes w. stored_row w \<le> stored_row (run_passes passes w)) \<and>
   (\<forall>svc sh w. getLastDataRow sh \<le> stored_row w \<longrightarrow> checkForNewProducts svc sh w = (None, w)) \<and>
   (\<forall>svc sh svc' sh' w.
      getLastDataRow sh' = getLastDataRow sh \<longrightarrow>
      checkForNewProducts svc' sh' (snd (checkForNewProducts svc sh w)) =
        (None, snd (checkForNewProducts svc sh w)))"
proof (intro conjI allI impI)
  fix svc sh w
  show "stored_row w \<le> stored_row (snd (checkForNewProducts svc sh w))"
    by (simp add: stored_row_after_pass)
next
  fix passes w
  show "stored_row w \<le> stored_row (run_passes passes w)"
    by (rule stored_row_run_passes)
next
  fix svc sh w
  assume "getLastDataRow sh \<le> stored_row w"
  then show "checkForNewProducts svc sh w = (None, w)"
    by (rule checkForNewProducts_no_new_rows)
next
  fix svc sh svc' sh' w
  assume "getLastDataRow sh' = getLastDataRow sh"
  then have "getLastDataRow sh' \<le> stored_row (snd (checkForNewProducts svc sh w))"
    by (simp add: stored_row_after_pass)
  then show "checkForNewProducts svc' sh' (snd (checkForNewProducts svc sh w)) =
        (None, snd (checkForNewProducts svc sh w))"
    by (rule checkForNewProducts_no_new_rows)
qed

text \<open>A pass over the example sheet with the stored row at 4, and a pass after a pass.\<close>

theorem watermark_never_decreases_witness:
  "checkForNewProducts example_shop example_sheet (new_world\<lparr>lastProcessedRow := Some 4\<rparr>) =
     (None, new_world\<lparr>lastProcessedRow := Some 4\<rparr>) \<and>
   checkForNewProducts example_shop example_sheet
       (snd (checkForNewProducts example_shop example_sheet example_world)) =
     (None, snd (checkForNewProducts example_shop example_sheet example_world))"
proof
  note no_new_rows = watermark_never_decreases [THEN conjunct2, THEN conjunct2, THEN conjunct1,
      rule_format]
  have "getLastDataRow example_sheet \<le> stored_row (new_world\<lparr>lastProcessedRow := Some 4\<rparr>)"
    by code_simp
  then show "checkForNewProducts example_shop example_sheet (new_world\<lparr>lastProcessedRow := Some 4\<rparr>) =
     (None, new_world\<lparr>lastProcessedRow := Some 4\<rparr>)"
    by (rule no_new_rows)
next
  note twice = watermark_never_decreases [THEN conjunct2, THEN conjunct2, THEN conjunct2,
      rule_format]
  show "checkForNewProducts example_shop example_sheet
       (snd (checkForNewProducts example_shop example_sheet example_world)) =
     (None, snd (checkForNewProducts example_shop example_sheet example_world))"
    by (rule twice) (rule refl)
qed

subsection \<open>Invalid products\<close>



subsection \<open>Blank rows\<close>

text \<open>
  Claim C9. A row in the range of a pass whose cells join to white space only is passed
  over: its step leaves the world as it was, so no status is written and nothing is
  posted for it, and the pass writes no status for it. The stored row moves past it all
  the same, stays past it in every later sequence of passes, and no later pass writes a
  status for it.
\<close>

theorem blank_rows_are_passed_over:
  assumes "stored_row w < i" and "i \<le> getLastDataRow sh" and "is_blank (sh ! (i - 1))"
  shows "(\<forall>b. loop_body svc (hd sh) i (sh ! (i - 1)) b = b) \<and>
     world_before svc sh w (Suc i) = world_before svc sh w i \<and>
     (\<exists>w' new. checkForNewProducts svc sh w = (None, w') \<and>
        statuses w' = statuses w @ new \<and> (\<forall>st. (i, st) \<notin> set new) \<and>
        lastProcessedRow w' = Some (getLastDataRow sh) \<and>
        (\<forall>passes. i \<le> stored_row (run_passes passes w')) \<and>
        (\<forall>passes svc' sh'.
           \<exists>later. statuses (snd (checkForNewProducts svc' sh' (run_passes passes w'))) =
                     statuses (run_passes passes w') @ later \<and>
                   (\<forall>st. (i, st) \<notin> set later)))"
proof (intro conjI)
  from assms(3) show "\<forall>b. loop_body svc (hd sh) i (sh ! (i - 1)) b = b"
    by (simp add: loop_body_blank)
next
  from assms show "world_before svc sh w (Suc i) = world_before svc sh w i"
    by (simp add: world_before_next loop_body_blank)
next
  from assms have new_rows: "stored_row w < getLastDataRow sh" by simp
  define w' where "w' = snd (checkForNewProducts svc sh w)"
  have pass: "checkForNewProducts svc sh w = (None, w')"
    by (simp add: w'_def checkForNewProducts_new_rows [OF new_rows])
  have mark: "lastProcessedRow w' = Some (getLastDataRow sh)"
    by (simp add: w'_def checkForNewProducts_new_rows [OF new_rows])
  from pass_statuses [of svc sh w] obtain new where new: "statuses w' = statuses w @ new"
    "\<forall>x \<in> set new. stored_row w < fst x \<and> fst x \<le> getLastDataRow sh \<and>
        \<not> is_blank (sh ! (fst x - 1))"
    unfolding w'_def by blast
  from new(2) assms(3) have none: "\<forall>st. (i, st) \<notin> set new" by fastforce
  have covered: "i \<le> stored_row w'" using mark assms(2) by (simp add: stored_row_def)
  have after: "i \<le> stored_row (run_passes passes w')" for passes
    using covered stored_row_run_passes [of w' passes] by simp
  have later: "\<exists>later. statuses (snd (checkForNewProducts svc' sh' (run_passes passes w'))) =
                     statuses (run_passes passes w') @ later \<and>
                   (\<forall>st. (i, st) \<notin> set later)" for passes svc' sh'
  proof -
    from pass_statuses [of svc' sh' "run_passes passes w'"] obtain l where
      l: "statuses (snd (checkForNewProducts svc' sh' (run_passes passes w'))) =
            statuses (run_passes passes w') @ l"
        "\<forall>x \<in> set l. stored_row (run_passes passes w') < fst x \<and> fst x \<le> getLastDataRow sh' \<and>
            \<not> is_blank (sh' ! (fst x - 1))"
      by blast
    from l(2) after [of passes] have "\<forall>st. (i, st) \<notin> set l" by fastforce
    with l(1) show ?thesis by blast
  qed
  from pass new(1) none mark after later
  show "\<exists>w' new. checkForNewProducts svc sh w = (None, w') \<and>
        statuses w' = statuses w @ new \<and> (\<forall>st. (i, st) \<notin> set new) \<and>
        lastProcessedRow w' = Some (getLastDataRow sh) \<and>
        (\<forall>passes. i \<le> stored_row (run_passes passes w')) \<and>
        (\<forall>passes svc' sh'.
           \<exists>later. statuses (snd (checkForNewProducts svc' sh' (run_passes passes w'))) =
                     statuses (run_passes passes w') @ later \<and>
                   (\<forall>st. (i, st) \<notin> set later))"
    by blast
qed

text \<open>The blank third row of the example.\<close>

theorem blank_rows_are_passed_over_witness:
  "world_before example_shop example_sheet example_world (Suc 3) =
     world_before example_shop example_sheet example_world 3 \<and>
   (\<exists>w'. checkForNewProducts example_shop example_sheet example_world = (None, w') \<and>
         lastProcessedRow w' = Some 4 \<and> (\<forall>st. (3, st) \<notin> set (statuses w')))"
proof -
  have n: "getLastDataRow example_sheet = 4" by code_simp
  have s: "stored_row example_world = 1" by code_simp
  have e: "statuses example_world = []" by code_simp
  have i: "stored_row example_world < 3" "3 \<le> getLastDataRow example_sheet"
    by (simp_all add: n s)
  from blank_rows_are_passed_over [OF i ex_row3, of example_shop] n e
  show ?thesis by auto
qed

end
